theory Spec2Isabelle
  imports Complex_Main "HOL-Library.Sublist" "HOL-Library.Multiset"
begin

section \<open>Python values used by the engine\<close>

text \<open>
  Python strings are modelled as lists of characters with code points below 256.
  The exceptions that the engine raises or lets through are values of \<open>error\<close>;
  a function that can raise returns \<open>error + 'a\<close> with \<open>Inl\<close> for the exception.
\<close>

datatype error =
    ValueError string
  | RecursionError
  | PlaywrightTimeoutError
  | Exception string

text \<open>\<open>str(e)\<close> of a caught exception, as the f-strings of the engine print it.\<close>

fun str_of_error :: "error \<Rightarrow> string" where
  "str_of_error (ValueError m) = m"
| "str_of_error RecursionError = ''maximum recursion depth exceeded''"
| "str_of_error PlaywrightTimeoutError = ''Timeout''"
| "str_of_error (Exception m) = m"

subsection \<open>String methods\<close>

text \<open>\<open>str.isspace\<close> on one character: the whitespace code points below 256.\<close>

definition py_isspace :: "char \<Rightarrow> bool" where
  "py_isspace c = (of_char c \<in> {9, 10, 11, 12, 13, 28, 29, 30, 31, 32, 133, 160 :: nat})"

definition upper_chars :: "char list" where
  "upper_chars = ''ABCDEFGHIJKLMNOPQRSTUVWXYZ'' @
     [CHR 0xC0, CHR 0xC1, CHR 0xC2, CHR 0xC3, CHR 0xC4, CHR 0xC5, CHR 0xC6, CHR 0xC7,
      CHR 0xC8, CHR 0xC9, CHR 0xCA, CHR 0xCB, CHR 0xCC, CHR 0xCD, CHR 0xCE, CHR 0xCF,
      CHR 0xD0, CHR 0xD1, CHR 0xD2, CHR 0xD3, CHR 0xD4, CHR 0xD5, CHR 0xD6,
      CHR 0xD8, CHR 0xD9, CHR 0xDA, CHR 0xDB, CHR 0xDC, CHR 0xDD, CHR 0xDE]"

definition lower_chars :: "char list" where
  "lower_chars = ''abcdefghijklmnopqrstuvwxyz'' @
     [CHR 0xE0, CHR 0xE1, CHR 0xE2, CHR 0xE3, CHR 0xE4, CHR 0xE5, CHR 0xE6, CHR 0xE7,
      CHR 0xE8, CHR 0xE9, CHR 0xEA, CHR 0xEB, CHR 0xEC, CHR 0xED, CHR 0xEE, CHR 0xEF,
      CHR 0xF0, CHR 0xF1, CHR 0xF2, CHR 0xF3, CHR 0xF4, CHR 0xF5, CHR 0xF6,
      CHR 0xF8, CHR 0xF9, CHR 0xFA, CHR 0xFB, CHR 0xFC, CHR 0xFD, CHR 0xFE]"

definition py_lower_char :: "char \<Rightarrow> char" where
  "py_lower_char c =
     (case map_of (zip upper_chars lower_chars) c of Some l \<Rightarrow> l | None \<Rightarrow> c)"

text \<open>\<open>s.lower()\<close>\<close>

definition py_lower :: "string \<Rightarrow> string" where
  "py_lower s = map py_lower_char s"

text \<open>\<open>s.strip()\<close>: whitespace removed at both ends, nothing else changed.\<close>

definition py_strip :: "string \<Rightarrow> string" where
  "py_strip s = rev (dropWhile py_isspace (rev (dropWhile py_isspace s)))"

text \<open>
  \<open>s.split()\<close>: the maximal runs of non-whitespace characters, in order. The first
  argument of the helper is the token being read.
\<close>

fun py_split_from :: "string \<Rightarrow> string \<Rightarrow> string list" where
  "py_split_from cur [] = (if cur = [] then [] else [cur])"
| "py_split_from cur (c # cs) =
     (if py_isspace c
      then (if cur = [] then py_split_from [] cs else cur # py_split_from [] cs)
      else py_split_from (cur @ [c]) cs)"

definition py_split :: "string \<Rightarrow> string list" where
  "py_split s = py_split_from [] s"

text \<open>\<open>sep.join(parts)\<close>\<close>

fun py_join :: "string \<Rightarrow> string list \<Rightarrow> string" where
  "py_join sep [] = []"
| "py_join sep [p] = p"
| "py_join sep (p # q # ps) = p @ sep @ py_join sep (q # ps)"

text \<open>\<open>s.startswith(p)\<close> is \<^const>\<open>prefix\<close>; \<open>sub in s\<close> is a substring test.\<close>

fun py_in :: "string \<Rightarrow> string \<Rightarrow> bool" where
  "py_in sub [] = (sub = [])"
| "py_in sub (c # cs) = (prefix sub (c # cs) \<or> py_in sub cs)"

text \<open>
  \<open>s.replace(old, new)\<close> for a non-empty \<open>old\<close>: every occurrence, scanning from the
  left and continuing after each replaced occurrence.
\<close>

function py_replace :: "string \<Rightarrow> string \<Rightarrow> string \<Rightarrow> string" where
  "py_replace old new s =
     (if s = [] then []
      else if old \<noteq> [] \<and> prefix old s then new @ py_replace old new (drop (length old) s)
      else hd s # py_replace old new (tl s))"
  by pat_completeness auto
termination
  by (relation "measure (\<lambda>(old, new, s). length s)") (auto simp: neq_Nil_conv)

declare py_replace.simps [simp del]

text \<open>Truthiness of an optional string: \<open>None\<close> and \<open>""\<close> are false.\<close>

definition truthy :: "string option \<Rightarrow> bool" where
  "truthy v = (case v of None \<Rightarrow> False | Some s \<Rightarrow> s \<noteq> [])"

section \<open>models.py\<close>

subsection \<open>URLInput\<close>

record URLInput =
  url :: string

text \<open>
  The dataclass constructor followed by \<open>__post_init__\<close>: the empty string is refused,
  then the scheme test is made on \<open>self.url.lower().strip()\<close>, and the stored field
  is the argument as given.
\<close>

definition URLInput :: "string \<Rightarrow> error + URLInput" where
  "URLInput u =
     (if u = [] then Inl (ValueError (''URL must be a non-empty string: '' @ u))
      else let url_lower = py_strip (py_lower u) in
        if \<not> (prefix ''http://'' url_lower \<or> prefix ''https://'' url_lower)
        then Inl (ValueError (''URL must start with http:// or https://: '' @ u))
        else Inr \<lparr>url = u\<rparr>)"

subsection \<open>ExtractedContent\<close>

record Link =
  href :: string
  anchor_text :: string

record ExtractedContent =
  visible_text :: string
  headings :: "string list"
  internal_links :: "Link list"

definition word_count :: "ExtractedContent \<Rightarrow> int" where
  "word_count c = int (length (py_split (visible_text c)))"

definition heading_count :: "ExtractedContent \<Rightarrow> int" where
  "heading_count c = int (length (headings c))"

definition internal_link_count :: "ExtractedContent \<Rightarrow> int" where
  "internal_link_count c = int (length (internal_links c))"

subsection \<open>DifferenceReport\<close>

record DifferenceReport =
  text_only_with_js :: "string list"
  text_only_without_js :: "string list"
  headings_missing_without_js :: "string list"
  headings_extra_without_js :: "string list"
  internal_links_missing_without_js :: "Link list"
  internal_links_extra_without_js :: "Link list"
  raw_word_count :: int
  rendered_word_count :: int
  raw_heading_count :: int
  rendered_heading_count :: int
  raw_internal_link_count :: int
  rendered_internal_link_count :: int

text \<open>
  Python floats are modelled by exact reals. \<open>round(x, 2)\<close> gives the nearest multiple
  of one hundredth, a tie going to the even one.
\<close>

definition py_round2 :: "real \<Rightarrow> real" where
  "py_round2 x =
     (let y = x * 100; f = \<lfloor>y\<rfloor>; d = y - of_int f in
      of_int (if d < 1 / 2 then f else if 1 / 2 < d then f + 1
              else if even f then f else f + 1) / 100)"

definition word_count_delta :: "DifferenceReport \<Rightarrow> int" where
  "word_count_delta r = rendered_word_count r - raw_word_count r"

definition word_count_percentage_change :: "DifferenceReport \<Rightarrow> real" where
  "word_count_percentage_change r =
     (if raw_word_count r = 0 then 0
      else py_round2 (of_int (word_count_delta r) / of_int (raw_word_count r) * 100))"



section \<open>extractor.py\<close>

subsection \<open>The parsed document\<close>

text \<open>
  \<open>BeautifulSoup(html, "lxml")\<close> is the work of the parser library; the extractor is
  modelled on the tree it returns. A node is a tag with its name, its attributes as
  written in the markup and its children, a text string or a comment. The soup
  object itself is the tag named \<open>[document]\<close> with no attributes. An ancestor of a
  node is recorded by its name and attributes, the nearest one first.
\<close>

datatype node =
    Tag string "(string \<times> string) list" "node list"
  | NavigableString string
  | Comment string

type_synonym element = "string \<times> (string \<times> string) list"

definition soup_of :: "node list \<Rightarrow> node" where
  "soup_of nodes = Tag ''[document]'' [] nodes"

text \<open>\<open>element.get(name, "")\<close> on a single-valued attribute.\<close>

definition get_attr :: "(string \<times> string) list \<Rightarrow> string \<Rightarrow> string" where
  "get_attr attrs name = (case map_of attrs name of None \<Rightarrow> [] | Some v \<Rightarrow> v)"

text \<open>
  \<open>element.get("class", [])\<close>: the parser library keeps the class attribute as the
  list of its whitespace-separated tokens.
\<close>

definition get_class :: "(string \<times> string) list \<Rightarrow> string list" where
  "get_class attrs = (case map_of attrs ''class'' of None \<Rightarrow> [] | Some v \<Rightarrow> py_split v)"

text \<open>The descendants of a node in document order, the node itself excluded.\<close>

fun descendants :: "node \<Rightarrow> node list" where
  "descendants (Tag name attrs children) = concat (map (\<lambda>c. c # descendants c) children)"
| "descendants (NavigableString s) = []"
| "descendants (Comment s) = []"

fun is_tag_named :: "string list \<Rightarrow> node \<Rightarrow> bool" where
  "is_tag_named names (Tag name attrs children) = (name \<in> set names)"
| "is_tag_named names (NavigableString s) = False"
| "is_tag_named names (Comment s) = False"

text \<open>\<open>soup.find_all(names)\<close>: the descendant tags with one of the names.\<close>

definition find_all :: "string list \<Rightarrow> node \<Rightarrow> node list" where
  "find_all names n = filter (is_tag_named names) (descendants n)"

text \<open>
  \<open>element.get_text()\<close> and \<open>element.get_text(strip=True)\<close>: the text strings below the
  element, comments left out, concatenated with no separator; with \<open>strip\<close> each string
  is stripped first and dropped when nothing remains.
\<close>

fun own_strings :: "node \<Rightarrow> string list" where
  "own_strings (Tag name attrs children) = concat (map own_strings children)"
| "own_strings (NavigableString s) = [s]"
| "own_strings (Comment s) = []"

definition get_text :: "node \<Rightarrow> string" where
  "get_text n = concat (own_strings n)"

definition get_text_strip :: "node \<Rightarrow> string" where
  "get_text_strip n = concat (filter (\<lambda>s. s \<noteq> []) (map py_strip (own_strings n)))"

text \<open>
  \<open>decompose()\<close> or \<open>extract()\<close> called on every descendant that satisfies a test made
  on the tree as it was before the loop: the node goes with everything below it.
\<close>

fun remove_where :: "(node \<Rightarrow> bool) \<Rightarrow> node \<Rightarrow> node" where
  "remove_where P (Tag name attrs children) =
     Tag name attrs (map (remove_where P) (filter (\<lambda>c. \<not> P c) children))"
| "remove_where P (NavigableString s) = NavigableString s"
| "remove_where P (Comment s) = Comment s"

subsection \<open>Class constants\<close>

definition IGNORED_TAGS :: "string list" where
  "IGNORED_TAGS =
     [''script'', ''style'', ''noscript'', ''iframe'', ''svg'', ''path'', ''circle'',
      ''rect'', ''polygon'', ''line'', ''ellipse'', ''defs'', ''use'', ''g'', ''symbol'',
      ''marker'', ''pattern'', ''filter'', ''mask'', ''clippath'', ''textpath'']"

definition HEADING_TAGS :: "string list" where
  "HEADING_TAGS = [''h1'', ''h2'', ''h3'', ''h4'', ''h5'', ''h6'']"

text \<open>
  An attribute selector: \<open>[name*='v']\<close> asks that the attribute is present and contains
  \<open>v\<close>, \<open>[name='v']\<close> that it equals \<open>v\<close>; a cookie-banner selector is a conjunction of
  them. The class attribute is matched as its tokens joined by single spaces.
\<close>

datatype attr_test = AttrContains string string | AttrEquals string string

definition COOKIE_BANNER_SELECTORS :: "attr_test list list" where
  "COOKIE_BANNER_SELECTORS =
     [[AttrContains ''id'' ''cookie''],
      [AttrContains ''class'' ''cookie''],
      [AttrContains ''id'' ''consent''],
      [AttrContains ''class'' ''consent''],
      [AttrContains ''id'' ''gdpr''],
      [AttrContains ''class'' ''gdpr''],
      [AttrEquals ''role'' ''dialog'', AttrContains ''id'' ''cookie'']]"

definition selector_value :: "(string \<times> string) list \<Rightarrow> string \<Rightarrow> string option" where
  "selector_value attrs name =
     (if name = ''class'' then map_option (\<lambda>v. py_join '' '' (py_split v)) (map_of attrs name)
      else map_of attrs name)"

fun attr_test_holds :: "(string \<times> string) list \<Rightarrow> attr_test \<Rightarrow> bool" where
  "attr_test_holds attrs (AttrContains name v) =
     (case selector_value attrs name of None \<Rightarrow> False | Some w \<Rightarrow> py_in v w)"
| "attr_test_holds attrs (AttrEquals name v) =
     (case selector_value attrs name of None \<Rightarrow> False | Some w \<Rightarrow> w = v)"

fun selector_matches :: "attr_test list \<Rightarrow> node \<Rightarrow> bool" where
  "selector_matches sel (Tag name attrs children) = list_all (attr_test_holds attrs) sel"
| "selector_matches sel (NavigableString s) = False"
| "selector_matches sel (Comment s) = False"

subsection \<open>Removing what is not content\<close>

fun is_comment :: "node \<Rightarrow> bool" where
  "is_comment (Comment s) = True"
| "is_comment (Tag name attrs children) = False"
| "is_comment (NavigableString s) = False"

definition looks_like_cookie_banner :: "node \<Rightarrow> bool" where
  "looks_like_cookie_banner n =
     (let element_text = py_lower (get_text n) in
      list_ex (\<lambda>word. py_in word element_text)
        [''cookie'', ''consent'', ''privacy'', ''accept'', ''reject''])"

text \<open>One pass of the banner loop, for one selector, on the tree the pass finds.\<close>

definition remove_banners :: "node \<Rightarrow> attr_test list \<Rightarrow> node" where
  "remove_banners soup sel =
     remove_where (\<lambda>n. selector_matches sel n \<and> looks_like_cookie_banner n) soup"

definition remove_ignored_elements :: "node \<Rightarrow> node" where
  "remove_ignored_elements soup =
     (let soup1 = remove_where (is_tag_named IGNORED_TAGS) soup;
          soup2 = remove_where is_comment soup1
      in foldl remove_banners soup2 COOKIE_BANNER_SELECTORS)"

subsection \<open>Visible text\<close>

text \<open>
  The hidden patterns tested on one element: its lower-cased style, its class tokens
  joined by spaces and lower-cased, and its lower-cased aria-hidden attribute.
\<close>

definition marked_hidden :: "element \<Rightarrow> bool" where
  "marked_hidden e =
     (let style = py_lower (get_attr (snd e) ''style'');
          class_attr = py_lower (py_join '' '' (get_class (snd e)));
          aria_hidden = py_lower (get_attr (snd e) ''aria-hidden'')
      in py_in ''display:none'' style \<or> py_in ''visibility:hidden'' style
         \<or> py_in ''hidden'' class_attr \<or> aria_hidden = ''true'')"

text \<open>
  \<open>_is_element_visible\<close> on an element given with its ancestors: the element is the
  head of the list, its parent comes next, the soup object last. The walk goes on
  while there is a parent with a non-empty name, one call for each ancestor; the
  interpreter's limit on the depth of calls is not part of this definition.
\<close>

fun is_element_visible :: "element list \<Rightarrow> bool" where
  "is_element_visible [] = True"
| "is_element_visible [e] = (\<not> marked_hidden e)"
| "is_element_visible (e # p # ps) =
     (if marked_hidden e then False
      else if fst p \<noteq> [] then is_element_visible (p # ps)
      else True)"

text \<open>
  \<open>soup.find_all(string=True)\<close>: every string of the tree in document order, here with
  the chain of tags above it. The first argument is the chain above the node.
\<close>

fun strings_with_parents :: "element list \<Rightarrow> node \<Rightarrow> (string \<times> element list) list" where
  "strings_with_parents chain (Tag name attrs children) =
     concat (map (strings_with_parents ((name, attrs) # chain)) children)"
| "strings_with_parents chain (NavigableString s) = [(s, chain)]"
| "strings_with_parents chain (Comment s) = [(s, chain)]"

text \<open>
  \<open>_normalize_whitespace\<close>: the first substitution turns every run of whitespace into
  one space; after it no line break is left, so the second one, made line by line,
  removes the whitespace at the two ends of the text.
\<close>

fun collapse_from :: "bool \<Rightarrow> string \<Rightarrow> string" where
  "collapse_from in_run [] = []"
| "collapse_from in_run (c # cs) =
     (if py_isspace c
      then (if in_run then collapse_from True cs else CHR '' '' # collapse_from True cs)
      else c # collapse_from False cs)"

definition collapse_whitespace :: "string \<Rightarrow> string" where
  "collapse_whitespace t = collapse_from False t"

definition normalize_whitespace :: "string \<Rightarrow> string" where
  "normalize_whitespace t = py_strip (collapse_whitespace t)"

definition text_parts :: "node \<Rightarrow> string list" where
  "text_parts soup =
     map fst (filter (\<lambda>(s, parents). parents \<noteq> [] \<and> is_element_visible parents)
       (strings_with_parents [] soup))"

definition extract_visible_text :: "node \<Rightarrow> string" where
  "extract_visible_text soup =
     py_strip (normalize_whitespace (py_join '' '' (text_parts soup)))"

subsection \<open>Headings\<close>

definition extract_headings :: "node \<Rightarrow> string list" where
  "extract_headings soup =
     concat (map (\<lambda>heading_tag.
        filter (\<lambda>t. t \<noteq> []) (map get_text_strip (find_all [heading_tag] soup)))
       HEADING_TAGS)"

subsection \<open>Internal links\<close>

text \<open>
  \<open>urljoin\<close> and \<open>urlparse(...).netloc\<close> belong to the standard library and are
  parameters of the model; both can raise \<open>ValueError\<close>.
\<close>

record urllib =
  urljoin :: "string \<Rightarrow> string \<Rightarrow> error + string"
  netloc :: "string \<Rightarrow> error + string"

text \<open>
  \<open>_is_internal_link\<close>: without a base URL every link is internal; otherwise the two
  network locations are compared after \<open>replace("www.", "")\<close>, and a failure to parse
  either URL counts as internal.
\<close>

definition is_internal_link :: "urllib \<Rightarrow> string option \<Rightarrow> string \<Rightarrow> bool" where
  "is_internal_link lib base_url h =
     (case base_url of
        None \<Rightarrow> True
      | Some b \<Rightarrow>
          if b = [] then True
          else (case netloc lib b of
                  Inl e \<Rightarrow> True
                | Inr base_netloc \<Rightarrow>
                    (case netloc lib h of
                       Inl e \<Rightarrow> True
                     | Inr link_netloc \<Rightarrow>
                         py_replace ''www.'' [] base_netloc = py_replace ''www.'' [] link_netloc)))"

fun has_href :: "node \<Rightarrow> bool" where
  "has_href (Tag name attrs children) = (map_of attrs ''href'' \<noteq> None)"
| "has_href (NavigableString s) = False"
| "has_href (Comment s) = False"

fun attrs_of :: "node \<Rightarrow> (string \<times> string) list" where
  "attrs_of (Tag name attrs children) = attrs"
| "attrs_of (NavigableString s) = []"
| "attrs_of (Comment s) = []"

text \<open>The body of the loop for one anchor: nothing, a link to append, or an exception.\<close>

definition link_of_anchor :: "urllib \<Rightarrow> string option \<Rightarrow> node \<Rightarrow> error + Link option" where
  "link_of_anchor lib base_url a =
     (let h = py_strip (get_attr (attrs_of a) ''href'');
          anchor = get_text_strip a
      in if h = [] \<or> anchor = [] then Inr None
         else if prefix ''javascript:'' h \<or> prefix ''mailto:'' h \<or> prefix ''tel:'' h
                 \<or> prefix ''#'' h then Inr None
         else (case (if truthy base_url then urljoin lib (the base_url) h else Inr h) of
                 Inl e \<Rightarrow> Inl e
               | Inr h' \<Rightarrow>
                   if is_internal_link lib base_url h'
                   then Inr (Some \<lparr>href = h', anchor_text = anchor\<rparr>)
                   else Inr None))"

fun collect_links :: "urllib \<Rightarrow> string option \<Rightarrow> node list \<Rightarrow> Link list \<Rightarrow> error + Link list" where
  "collect_links lib base_url [] links = Inr links"
| "collect_links lib base_url (a # as) links =
     (case link_of_anchor lib base_url a of
        Inl e \<Rightarrow> Inl e
      | Inr None \<Rightarrow> collect_links lib base_url as links
      | Inr (Some l) \<Rightarrow> collect_links lib base_url as (links @ [l]))"

definition extract_internal_links :: "urllib \<Rightarrow> string option \<Rightarrow> node \<Rightarrow> error + Link list" where
  "extract_internal_links lib base_url soup =
     collect_links lib base_url (filter has_href (find_all [''a''] soup)) []"

subsection \<open>extract\<close>

text \<open>
  \<open>ContentExtractor(base_url).extract\<close> on the parsed document (\<open>extract\<close> alone is
  a reserved word of the theory language).
\<close>

definition extract_soup :: "urllib \<Rightarrow> string option \<Rightarrow> node \<Rightarrow> error + ExtractedContent" where
  "extract_soup lib base_url parsed =
     (let soup = remove_ignored_elements parsed;
          vt = extract_visible_text soup;
          hs = extract_headings soup
      in case extract_internal_links lib base_url soup of
           Inl e \<Rightarrow> Inl e
         | Inr links \<Rightarrow> Inr \<lparr>visible_text = vt, headings = hs, internal_links = links\<rparr>)"

section \<open>differ.py\<close>

text \<open>
  The loop of \<open>_group_words_into_blocks\<close> over the remaining words, with its three
  variables: the blocks emitted so far, the current block and the counter.
\<close>

fun group_loop ::
  "string set \<Rightarrow> string list \<Rightarrow> string list \<Rightarrow> string list \<Rightarrow> nat \<Rightarrow> string list" where
  "group_loop unique_words [] blocks current_block unique_count =
     (if unique_count \<ge> 3 then blocks @ [py_join '' '' current_block] else blocks)"
| "group_loop unique_words (w # ws) blocks current_block unique_count =
     (if py_lower w \<in> unique_words
      then group_loop unique_words ws blocks (current_block @ [w]) (unique_count + 1)
      else group_loop unique_words ws
             (if unique_count \<ge> 3 then blocks @ [py_join '' '' current_block] else blocks)
             [] 0)"

definition group_words_into_blocks :: "string \<Rightarrow> string set \<Rightarrow> string list" where
  "group_words_into_blocks t unique_words =
     (if unique_words = {} then []
      else group_loop unique_words (py_split t) [] [] 0)"

definition compare_text :: "string \<Rightarrow> string \<Rightarrow> string list \<times> string list" where
  "compare_text raw_text rendered_text =
     (let raw_words = set (py_split (py_lower raw_text));
          rendered_words = set (py_split (py_lower rendered_text));
          words_only_with_js = rendered_words - raw_words;
          words_only_without_js = raw_words - rendered_words
      in (group_words_into_blocks rendered_text words_only_with_js,
          group_words_into_blocks raw_text words_only_without_js))"

subsection \<open>The grouping as the specification words it\<close>

text \<open>
  The maximal runs of consecutive words that satisfy a test, in order: skip the words
  that fail it, take the words that pass it as long as they do, and go on behind them.
\<close>

function maximal_runs :: "('a \<Rightarrow> bool) \<Rightarrow> 'a list \<Rightarrow> 'a list list" where
  "maximal_runs P ws =
     (let rest = dropWhile (\<lambda>w. \<not> P w) ws in
      if rest = [] then []
      else takeWhile P rest # maximal_runs P (dropWhile P rest))"
  by pat_completeness auto
termination
proof (relation "measure (\<lambda>(P, ws). length ws)")
  show "wf (measure (\<lambda>(P, ws). length ws))"
    by simp
next
  fix P :: "'a \<Rightarrow> bool" and ws rest :: "'a list"
  assume r: "rest = dropWhile (\<lambda>w. \<not> P w) ws" and ne: "rest \<noteq> []"
  from ne obtain x xs where rest: "rest = x # xs"
    by (cases rest) auto
  from r rest have "P x"
    by (metis hd_dropWhile list.sel(1) ne)
  then have "length (dropWhile P rest) < length rest"
    using rest by (simp add: le_imp_less_Suc length_dropWhile_le)
  also have "length rest \<le> length ws"
    using r by (simp add: length_dropWhile_le)
  finally show "((P, dropWhile P rest), (P, ws)) \<in> measure (\<lambda>(P, ws). length ws)"
    by simp
qed

declare maximal_runs.simps [simp del]

definition spec_text_blocks :: "string \<Rightarrow> string set \<Rightarrow> string list" where
  "spec_text_blocks t unique_words =
     map (py_join '' '')
       (filter (\<lambda>run. 3 \<le> length run)
          (maximal_runs (\<lambda>w. py_lower w \<in> unique_words) (py_split t)))"

section \<open>fetcher.py\<close>

text \<open>
  \<open>page.wait_for_load_state(state, timeout=...)\<close> belongs to the browser driver: it
  returns, or raises the driver's timeout error or something else.
\<close>

type_synonym page = "string \<Rightarrow> int \<Rightarrow> error + unit"

text \<open>
  \<open>_wait_for_content\<close>. The first argument is the number of calls that the
  interpreter's recursion limit still allows; a call beyond it raises
  \<open>RecursionError\<close>. \<open>asyncio.sleep\<close> returns.
\<close>

fun wait_for_content :: "nat \<Rightarrow> string \<Rightarrow> page \<Rightarrow> int \<Rightarrow> error + unit" where
  "wait_for_content 0 wait_strategy pg timeout = Inl RecursionError"
| "wait_for_content (Suc depth) wait_strategy pg timeout =
     (if wait_strategy = ''network_idle'' then
        (case pg ''networkidle'' timeout of
           Inl PlaywrightTimeoutError \<Rightarrow> Inr ()
         | Inl e \<Rightarrow> Inl e
         | Inr u \<Rightarrow> Inr ())
      else if wait_strategy = ''load'' then pg ''load'' timeout
      else if wait_strategy = ''timeout'' then Inr ()
      else wait_for_content depth wait_strategy pg timeout)"

section \<open>job\_runner.py\<close>

subsection \<open>The records of models.py that the runner fills\<close>

record RawFetchResult =
  url :: string
  original_url :: string
  status_code :: int
  headers :: "(string \<times> string) list"
  html :: string
  fetch_time_ms :: int

record RenderedFetchResult =
  url :: string
  original_url :: string
  html :: string
  success :: bool
  fetch_time_ms :: int
  error_message :: "string option"

record URLAnalysis =
  url :: string
  final_url :: string
  http_status :: int
  raw_fetch :: "RawFetchResult option"
  rendered_fetch :: "RenderedFetchResult option"
  raw_content :: "ExtractedContent option"
  rendered_content :: "ExtractedContent option"
  differences :: "DifferenceReport option"
  fetch_errors :: "string list"
  render_errors :: "string list"
  extraction_errors :: "string list"

record JobResult =
  started_at :: int
  finished_at :: "int option"
  urls_processed :: int
  urls_succeeded :: int
  urls_failed :: int
  results :: "URLAnalysis list"

text \<open>The property \<open>URLAnalysis.success\<close>.\<close>

definition analysis_success :: "URLAnalysis \<Rightarrow> bool" where
  "analysis_success a =
     (length (fetch_errors a) = 0 \<and> length (render_errors a) = 0
      \<and> length (extraction_errors a) = 0 \<and> raw_content a \<noteq> None)"

subsection \<open>Validation and deduplication\<close>

text \<open>
  The set \<open>validated\<close> is kept as the list of its members, each once, in the order of
  their insertion. \<open>list(validated)\<close> enumerates the set in the order of the
  interpreter's hash table, which the program does not control: it is the parameter
  \<open>hash_order\<close>, some rearrangement of the members.
\<close>

fun validated_members :: "string list \<Rightarrow> string list \<Rightarrow> string list" where
  "validated_members [] validated = validated"
| "validated_members (u # us) validated =
     (let u' = py_strip u in
      if u' = [] then validated_members us validated
      else (case URLInput u' of
              Inl e \<Rightarrow> validated_members us validated
            | Inr v \<Rightarrow>
                validated_members us
                  (if u' \<in> set validated then validated else validated @ [u'])))"

definition validate_and_deduplicate ::
  "(string list \<Rightarrow> string list) \<Rightarrow> string list \<Rightarrow> string list" where
  "validate_and_deduplicate hash_order urls = hash_order (validated_members urls [])"

text \<open>The first-seen order that the specification asks for.\<close>

fun first_seen :: "'a list \<Rightarrow> 'a list" where
  "first_seen [] = []"
| "first_seen (x # xs) = x # first_seen (filter (\<lambda>y. y \<noteq> x) xs)"

definition spec_first_seen :: "string list \<Rightarrow> string list" where
  "spec_first_seen urls =
     first_seen (filter (\<lambda>u. u \<noteq> [] \<and> \<not> isl (URLInput u)) (map py_strip urls))"

subsection \<open>The pipeline of one URL\<close>

text \<open>
  The two fetchers, the extractor with its base URL and the differ, as the runner
  calls them; each may raise.
\<close>

record collaborators =
  raw_fetcher :: "string \<Rightarrow> error + (RawFetchResult option \<times> string option)"
  js_fetcher :: "string \<Rightarrow> error + (RenderedFetchResult option \<times> string option)"
  extractor :: "string \<Rightarrow> string \<Rightarrow> error + ExtractedContent"
  differ :: "ExtractedContent \<Rightarrow> ExtractedContent \<Rightarrow> error + DifferenceReport"

definition guarded :: "string \<Rightarrow> error + 'a \<Rightarrow> 'a option \<times> string list" where
  "guarded what r =
     (case r of Inl e \<Rightarrow> (None, [what @ str_of_error e]) | Inr v \<Rightarrow> (Some v, []))"

definition process_url :: "collaborators \<Rightarrow> string \<Rightarrow> error + URLAnalysis" where
  "process_url env u =
     (case raw_fetcher env u of
        Inl e \<Rightarrow> Inl e
      | Inr (raw, raw_error) \<Rightarrow>
          let failed = (truthy raw_error \<or> raw = None);
              fetch_errs = (case raw_error of
                              Some m \<Rightarrow> if failed \<and> m \<noteq> [] then [m] else []
                            | None \<Rightarrow> []);
              status = (case raw of
                          Some rf \<Rightarrow> if failed then 0 else status_code rf
                        | None \<Rightarrow> 0);
              final = (case raw of
                         Some rf \<Rightarrow> if failed then u else RawFetchResult.url rf
                       | None \<Rightarrow> u)
          in (case (case raw of None \<Rightarrow> Inr (None, None) | Some rf \<Rightarrow> js_fetcher env u) of
                Inl e \<Rightarrow> Inl e
              | Inr (rendered, render_error) \<Rightarrow>
                  let render_errs = (case render_error of
                                       Some m \<Rightarrow> if m \<noteq> [] then [m] else []
                                     | None \<Rightarrow> []);
                      (raw_c, errs1) =
                        (case raw of
                           None \<Rightarrow> (None, [])
                         | Some rf \<Rightarrow>
                             guarded ''Raw content extraction failed: ''
                               (extractor env (RawFetchResult.url rf) (RawFetchResult.html rf)));
                      (rendered_c, errs2) =
                        (case rendered of
                           None \<Rightarrow> (None, [])
                         | Some rf \<Rightarrow>
                             if RenderedFetchResult.success rf
                             then guarded ''Rendered content extraction failed: ''
                                    (extractor env (RenderedFetchResult.url rf)
                                       (RenderedFetchResult.html rf))
                             else (None, []));
                      (diff, errs3) =
                        (case (raw_c, rendered_c) of
                           (Some a, Some b) \<Rightarrow>
                             guarded ''Content comparison failed: '' (differ env a b)
                         | _ \<Rightarrow> (None, []))
                  in Inr \<lparr>URLAnalysis.url = u, final_url = final, http_status = status,
                          raw_fetch = raw, rendered_fetch = rendered,
                          raw_content = raw_c, rendered_content = rendered_c,
                          differences = diff,
                          fetch_errors = fetch_errs, render_errors = render_errs,
                          extraction_errors = errs1 @ errs2 @ errs3\<rparr>))"

subsection \<open>The job\<close>

text \<open>The analysis built for a task whose result is an exception.\<close>

definition failed_analysis :: "string \<Rightarrow> error \<Rightarrow> URLAnalysis" where
  "failed_analysis u e =
     \<lparr>URLAnalysis.url = u, final_url = u, http_status = 0,
      raw_fetch = None, rendered_fetch = None,
      raw_content = None, rendered_content = None, differences = None,
      fetch_errors = [''Unexpected error: '' @ str_of_error e],
      render_errors = [], extraction_errors = []\<rparr>"

text \<open>
  \<open>run_job_async\<close>. The tasks share nothing but the semaphore, so
  \<open>gather(..., return_exceptions=True)\<close> is the list of their outcomes in the order
  of the tasks. The two readings of the clock are arguments.
\<close>

definition run_job_async ::
  "(string list \<Rightarrow> string list) \<Rightarrow> collaborators \<Rightarrow> int \<Rightarrow> int \<Rightarrow> string list \<Rightarrow> JobResult" where
  "run_job_async hash_order env t_start t_end urls =
     (let validated_urls = validate_and_deduplicate hash_order urls;
          gathered = map (process_url env) validated_urls;
          analyses = map (\<lambda>(i, result).
                            case result of
                              Inl e \<Rightarrow> failed_analysis (validated_urls ! i) e
                            | Inr a \<Rightarrow> a)
                       (enumerate 0 gathered);
          succeeded = int (length (filter analysis_success analyses))
      in \<lparr>started_at = t_start, finished_at = Some t_end,
          urls_processed = int (length validated_urls),
          urls_succeeded = succeeded,
          urls_failed = int (length analyses) - succeeded,
          results = analyses\<rparr>)"

section \<open>Specification-side notions and the documents of the examples\<close>

text \<open>The headings in document order: one walk of the tree for the six tags together.\<close>

definition spec_headings_document_order :: "node \<Rightarrow> string list" where
  "spec_headings_document_order soup =
     filter (\<lambda>t. t \<noteq> []) (map get_text_strip (find_all HEADING_TAGS soup))"



text \<open>
  The tree of
  \<^verbatim>\<open><html><body><h3>Third</h3><h1>First</h1><h2>Second</h2></body></html>\<close>,
  the document of the repository's test \<open>test_heading_order_preserved\<close>.
\<close>

definition doc_heading_order :: node where
  "doc_heading_order =
     soup_of [Tag ''html'' [] [Tag ''body'' []
       [Tag ''h3'' [] [NavigableString ''Third''],
        Tag ''h1'' [] [NavigableString ''First''],
        Tag ''h2'' [] [NavigableString ''Second'']]]]"

text \<open>The tree of \<^verbatim>\<open><html><body><a href="http://[">x</a></body></html>\<close>.\<close>

definition doc_bad_href :: node where
  "doc_bad_href =
     soup_of [Tag ''html'' [] [Tag ''body'' []
       [Tag ''a'' [(''href'', ''http://['')] [NavigableString ''x'']]]]"


text \<open>
  The standard library on the URLs of the examples: \<open>urljoin\<close> raises on the href with
  the unmatched bracket and returns every other (absolute) href as it is; the network
  location of \<open>https://host/path\<close> is \<open>host\<close>.
\<close>

definition lib_example :: urllib where
  "lib_example =
     \<lparr>urljoin = (\<lambda>b h. if h = ''http://['' then Inl (ValueError ''Invalid IPv6 URL'')
                         else Inr h),
      netloc = (\<lambda>u. Inr (takeWhile (\<lambda>c. c \<noteq> CHR ''/'') (drop 8 u)))\<rparr>"

text \<open>
  Collaborators for the examples: the raw fetcher raises on one URL and reports a
  failure on every other one.
\<close>

definition env_example :: collaborators where
  "env_example =
     \<lparr>raw_fetcher = (\<lambda>u. if u = ''http://b.example'' then Inl (Exception ''boom'')
                            else Inr (None, Some ''Timeout after 30000ms'')),
      js_fetcher = (\<lambda>u. Inr (None, Some ''No response received'')),
      extractor = (\<lambda>b h. Inr \<lparr>visible_text = h, headings = [], internal_links = []\<rparr>),
      differ = (\<lambda>a b. Inl (Exception ''unused''))\<rparr>"

section \<open>Headings\<close>

text \<open>
  Claim C1: the heading list holds the text of every non-empty h1 to h6 element in
  document order. The code walks the tree once per heading level, so the result is
  grouped by level: on the document of the repository's own test, where document
  order is Third, First, Second, \<open>extract\<close> returns First, Second, Third.
\<close>

theorem C1_headings_grouped_by_level:
  "extract_soup lib_example None doc_heading_order
     = Inr \<lparr>visible_text = ''Third First Second'',
            headings = [''First'', ''Second'', ''Third''],
            internal_links = []\<rparr> \<and>
   spec_headings_document_order (remove_ignored_elements doc_heading_order)
     = [''Third'', ''First'', ''Second'']"
  by code_simp

section \<open>Validation order and the per-URL list\<close>

lemma first_seen_set: "set (first_seen xs) = set xs"
  by (induction xs rule: first_seen.induct) auto

lemma first_seen_distinct: "distinct (first_seen xs)"
  by (induction xs rule: first_seen.induct) (auto simp: first_seen_set)

text \<open>The members of the set, in insertion order, are the first-seen list.\<close>

lemma validated_members_first_seen:
  "validated_members urls acc
     = acc @ first_seen (filter (\<lambda>u. u \<notin> set acc)
                           (filter (\<lambda>u. u \<noteq> [] \<and> \<not> isl (URLInput u)) (map py_strip urls)))"
proof (induction urls arbitrary: acc)
  case Nil
  then show ?case by simp
next
  case (Cons u us)
  show ?case
    by (cases "URLInput (py_strip u)") (auto simp: Cons.IH Let_def conj_ac)
qed

lemma validated_members_spec: "validated_members urls [] = spec_first_seen urls"
  by (simp add: validated_members_first_seen spec_first_seen_def)

lemma process_url_url: "process_url env u = Inr a \<Longrightarrow> URLAnalysis.url a = u"
  by (auto simp: process_url_def Let_def split: sum.splits prod.splits)

lemma results_nth:
  assumes "i < length (validate_and_deduplicate hash_order urls)"
  shows "results (run_job_async hash_order env t0 t1 urls) ! i
         = (case process_url env (validate_and_deduplicate hash_order urls ! i) of
              Inl e \<Rightarrow> failed_analysis (validate_and_deduplicate hash_order urls ! i) e
            | Inr a \<Rightarrow> a)"
  using assms by (simp add: run_job_async_def Let_def nth_enumerate_eq)

lemma results_length:
  "length (results (run_job_async hash_order env t0 t1 urls))
     = length (validate_and_deduplicate hash_order urls)"
  by (simp add: run_job_async_def Let_def)

lemma results_urls:
  "map URLAnalysis.url (results (run_job_async hash_order env t0 t1 urls))
     = validate_and_deduplicate hash_order urls"
proof (rule nth_equalityI)
  show "length (map URLAnalysis.url (results (run_job_async hash_order env t0 t1 urls)))
        = length (validate_and_deduplicate hash_order urls)"
    by (simp add: results_length)
next
  fix i
  assume "i < length (map URLAnalysis.url (results (run_job_async hash_order env t0 t1 urls)))"
  then have i: "i < length (validate_and_deduplicate hash_order urls)"
    by (simp add: results_length)
  then show "map URLAnalysis.url (results (run_job_async hash_order env t0 t1 urls)) ! i
             = validate_and_deduplicate hash_order urls ! i"
    by (auto simp: results_length results_nth failed_analysis_def process_url_url
        split: sum.splits)
qed

lemma example_validated:
  "validate_and_deduplicate rev
     [''http://a.example'', '' http://b.example '', ''ftp://c'', ''http://a.example'']
   = [''http://b.example'', ''http://a.example'']"
  by code_simp

lemma example_first_seen:
  "spec_first_seen
     [''http://a.example'', '' http://b.example '', ''ftp://c'', ''http://a.example'']
   = [''http://a.example'', ''http://b.example'']"
  by code_simp


text \<open>
  Claim C2, as amended: whatever order the hash table gives, the validation step
  returns every valid trimmed URL exactly once, the same URLs as the first-seen list,
  and the per-URL list of the job result is in the order of the list that the
  validation step returned. The order of that list itself is the hash table's.
\<close>

theorem C2_validated_urls_and_result_order:
  assumes "\<And>xs. mset (hash_order xs) = mset xs"
  shows "mset (validate_and_deduplicate hash_order urls) = mset (spec_first_seen urls) \<and>
         distinct (validate_and_deduplicate hash_order urls) \<and>
         map URLAnalysis.url (results (run_job_async hash_order env t0 t1 urls))
           = validate_and_deduplicate hash_order urls"
proof -
  have m: "mset (validate_and_deduplicate hash_order urls) = mset (spec_first_seen urls)"
    by (simp add: validate_and_deduplicate_def assms validated_members_spec)
  have "distinct (spec_first_seen urls)"
    by (simp add: spec_first_seen_def first_seen_distinct)
  with m have "distinct (validate_and_deduplicate hash_order urls)"
    by (metis mset_eq_imp_distinct_iff)
  with m show ?thesis
    by (simp add: results_urls)
qed

theorem C2_validated_urls_and_result_order_witness:
  "(\<forall>xs :: string list. mset (rev xs) = mset xs) \<and>
   spec_first_seen
           [''http://a.example'', '' http://b.example '', ''ftp://c'', ''http://a.example'']
     = [''http://a.example'', ''http://b.example''] \<and>
   distinct (validate_and_deduplicate rev
           [''http://a.example'', '' http://b.example '', ''ftp://c'', ''http://a.example'']) \<and>
   map URLAnalysis.url (results (run_job_async rev env_example 0 1
           [''http://a.example'', '' http://b.example '', ''ftp://c'', ''http://a.example'']))
     = [''http://b.example'', ''http://a.example'']"
proof -
  have h: "\<And>xs :: string list. mset (rev xs) = mset xs"
    by simp
  show ?thesis
    using C2_validated_urls_and_result_order [of rev
        "[''http://a.example'', '' http://b.example '', ''ftp://c'', ''http://a.example'']"
        env_example 0 1, OF h]
    by (simp add: example_validated example_first_seen)
qed

text \<open>
  The claim as stated fails: reversal is one of the orders a hash table can give, and
  with it the two valid URLs come back in the order opposite to the first-seen one.
\<close>

theorem C2_first_seen_order_counterexample:
  "validate_and_deduplicate rev [''http://a.example'', ''http://b.example'']
     = [''http://b.example'', ''http://a.example''] \<and>
   spec_first_seen [''http://a.example'', ''http://b.example'']
     = [''http://a.example'', ''http://b.example'']"
  by code_simp

section \<open>Exceptions at the task boundary\<close>



section \<open>What the extractor lets through\<close>

lemma bad_href_anchors:
  "filter has_href (find_all [''a''] (remove_ignored_elements doc_bad_href))
     = [Tag ''a'' [(''href'', ''http://['')] [NavigableString ''x'']]"
  by code_simp

lemma bad_href_stripped: "py_strip (get_attr [(''href'', ''http://['')] ''href'') = ''http://[''"
  by code_simp

lemma bad_href_text:
  "get_text_strip (Tag ''a'' [(''href'', ''http://['')] [NavigableString ''x'']) = ''x''"
  by code_simp

text \<open>
  Claim C3: \<open>extract\<close> never raises. With a base URL the href of every kept anchor goes
  through \<open>urljoin\<close> outside any handler, so when \<open>urljoin\<close> raises on an href, as it
  does on an unmatched bracket in the network location, the exception leaves
  \<open>extract\<close>. The URL parsing of \<open>_is_internal_link\<close>, one line later, is guarded.
\<close>

theorem C3_urljoin_error_escapes:
  "b \<noteq> [] \<Longrightarrow> urljoin lib b ''http://['' = Inl e \<Longrightarrow>
   extract_soup lib (Some b) doc_bad_href = Inl e"
  by (simp add: extract_soup_def extract_internal_links_def bad_href_anchors
      link_of_anchor_def bad_href_stripped bad_href_text truthy_def Let_def)

theorem C3_urljoin_error_escapes_witness:
  "''https://example.com'' \<noteq> [] \<and>
   urljoin lib_example ''https://example.com'' ''http://[''
     = Inl (ValueError ''Invalid IPv6 URL'') \<and>
   extract_soup lib_example (Some ''https://example.com'') doc_bad_href
     = Inl (ValueError ''Invalid IPv6 URL'')"
  using C3_urljoin_error_escapes
    [of "''https://example.com''" lib_example "ValueError ''Invalid IPv6 URL''"]
  by (simp add: lib_example_def)

text \<open>
  Nothing else in the model of \<open>extract\<close> raises: without a base URL, or with a
  \<open>urljoin\<close> that accepts every href, it returns its content.
\<close>

lemma collect_links_total:
  "(\<And>a. a \<in> set anchors \<Longrightarrow> \<not> isl (link_of_anchor lib base_url a)) \<Longrightarrow>
   \<exists>ls. collect_links lib base_url anchors links = Inr ls"
proof (induction anchors arbitrary: links)
  case Nil
  then show ?case
    by simp
next
  case (Cons a anchors)
  from Cons.prems [of a] obtain r where r: "link_of_anchor lib base_url a = Inr r"
    by (cases "link_of_anchor lib base_url a") auto
  show ?case
    using Cons.IH Cons.prems r by (cases r) auto
qed

lemma link_of_anchor_total:
  "\<not> truthy base_url \<or> (\<forall>h e. urljoin lib (the base_url) h \<noteq> Inl e) \<Longrightarrow>
   \<not> isl (link_of_anchor lib base_url a)"
  by (auto simp: link_of_anchor_def Let_def split: sum.splits)

lemma extract_returns_unless_urljoin_raises:
  assumes "\<not> truthy base_url \<or> (\<forall>h e. urljoin lib (the base_url) h \<noteq> Inl e)"
  shows "\<exists>c. extract_soup lib base_url parsed = Inr c"
proof -
  obtain ls where "extract_internal_links lib base_url (remove_ignored_elements parsed) = Inr ls"
    unfolding extract_internal_links_def
    using collect_links_total [of _ lib base_url "[]"] link_of_anchor_total [OF assms]
    by blast
  then show ?thesis
    by (simp add: extract_soup_def Let_def)
qed

section \<open>URL validation\<close>

text \<open>
  Claim C5: construction fails for a string with surrounding whitespace. The scheme
  test is made on the stripped text, so the input of the repository's test
  \<open>test_url_trims_whitespace\<close>, which expects \<open>ValueError\<close>, is accepted and stored
  with its whitespace.
\<close>

theorem C5_whitespace_url_accepted:
  "URLInput ''  https://example.com  '' = Inr \<lparr>URLInput.url = ''  https://example.com  ''\<rparr>"
  by (simp add: URLInput_def py_strip_def py_lower_def py_lower_char_def upper_chars_def
      lower_chars_def py_isspace_def)

text \<open>The same line lower-cases before the test, so an upper-case scheme passes too.\<close>

lemma uppercase_scheme_accepted:
  "URLInput ''HTTP://EXAMPLE.COM'' = Inr \<lparr>URLInput.url = ''HTTP://EXAMPLE.COM''\<rparr>"
  by (simp add: URLInput_def py_strip_def py_lower_def py_lower_char_def upper_chars_def
      lower_chars_def py_isspace_def)

section \<open>Internal links\<close>

text \<open>
  Claim C6: only a leading \<open>www.\<close> is stripped before the hosts are compared. The code
  removes every occurrence, so a link to \<open>a.www.example.com\<close> is internal for the base
  \<open>a.example.com\<close>, two hosts that differ after stripping a leading \<open>www.\<close>.
\<close>

theorem C6_inner_www_removed:
  "b \<noteq> [] \<Longrightarrow> netloc lib b = Inr ''a.example.com'' \<Longrightarrow>
   netloc lib h = Inr ''a.www.example.com'' \<Longrightarrow>
   is_internal_link lib (Some b) h \<and>
   py_replace ''www.'' [] ''a.www.example.com'' = ''a.example.com''"
  by (simp add: is_internal_link_def py_replace.simps)

theorem C6_inner_www_removed_witness:
  "''https://a.example.com'' \<noteq> [] \<and>
   netloc lib_example ''https://a.example.com'' = Inr ''a.example.com'' \<and>
   netloc lib_example ''https://a.www.example.com/x'' = Inr ''a.www.example.com'' \<and>
   is_internal_link lib_example (Some ''https://a.example.com'') ''https://a.www.example.com/x''"
  using C6_inner_www_removed
    [of "''https://a.example.com''" lib_example "''https://a.www.example.com/x''"]
  by (simp add: lib_example_def)

text \<open>
  Where the code and the stripping of a leading \<open>www.\<close> agree: no base URL, a leading
  \<open>www.\<close>, and a subdomain that is not \<open>www\<close>.
\<close>

lemma no_base_internal: "is_internal_link lib None h"
  by (simp add: is_internal_link_def)

lemma leading_www_internal:
  "b \<noteq> [] \<Longrightarrow> netloc lib b = Inr ''example.com'' \<Longrightarrow>
   netloc lib h = Inr ''www.example.com'' \<Longrightarrow> is_internal_link lib (Some b) h"
  by (simp add: is_internal_link_def py_replace.simps)

lemma subdomain_external:
  "b \<noteq> [] \<Longrightarrow> netloc lib b = Inr ''example.com'' \<Longrightarrow>
   netloc lib h = Inr ''sub.example.com'' \<Longrightarrow> \<not> is_internal_link lib (Some b) h"
  by (simp add: is_internal_link_def py_replace.simps)

section \<open>Text blocks\<close>

lemma runs_skip: "\<not> P w \<Longrightarrow> maximal_runs P (w # ws) = maximal_runs P ws"
  by (subst maximal_runs.simps, subst (2) maximal_runs.simps) simp

lemma runs_none: "\<forall>w\<in>set ws. \<not> P w \<Longrightarrow> maximal_runs P ws = []"
  by (subst maximal_runs.simps) simp

lemma runs_all: "list_all P cur \<Longrightarrow> maximal_runs P cur = (if cur = [] then [] else [cur])"
proof (cases cur)
  case Nil
  then show ?thesis
    by (subst maximal_runs.simps) simp
next
  case (Cons x xs)
  assume a: "list_all P cur"
  then have "takeWhile P cur = cur" "dropWhile P cur = []" "dropWhile (\<lambda>w. \<not> P w) cur = cur"
    using Cons by (auto simp: list_all_iff)
  then show ?thesis
    using Cons by (subst maximal_runs.simps) (simp add: Let_def runs_none)
qed

lemma runs_break:
  assumes "list_all P cur" "cur \<noteq> []" "\<not> P w"
  shows "maximal_runs P (cur @ w # ws) = cur # maximal_runs P ws"
proof -
  from assms obtain x xs where c: "cur = x # xs"
    by (cases cur) auto
  with assms have px: "P x"
    by simp
  have d: "dropWhile (\<lambda>w. \<not> P w) (cur @ w # ws) = cur @ w # ws"
    using c px by simp
  have t: "takeWhile P (cur @ w # ws) = cur"
    using assms by (simp add: list_all_iff)
  have e: "dropWhile P (cur @ w # ws) = w # ws"
    using assms by (simp add: list_all_iff)
  have "maximal_runs P (cur @ w # ws) = cur # maximal_runs P (w # ws)"
    by (subst maximal_runs.simps) (simp only: d t e Let_def, simp)
  then show ?thesis
    using assms(3) by (simp add: runs_skip)
qed

text \<open>
  The invariant of the loop: the blocks still to come are those of the runs of the
  current block followed by the remaining words.
\<close>

lemma group_loop_runs:
  "list_all (\<lambda>w. py_lower w \<in> U) cur \<Longrightarrow> n = length cur \<Longrightarrow>
   group_loop U ws blocks cur n
     = blocks @ map (py_join '' '')
         (filter (\<lambda>run. 3 \<le> length run)
            (maximal_runs (\<lambda>w. py_lower w \<in> U) (cur @ ws)))"
proof (induction ws arbitrary: blocks cur n)
  case Nil
  then show ?case
    by (simp add: runs_all)
next
  case (Cons w ws)
  show ?case
  proof (cases "py_lower w \<in> U")
    case True
    with Cons.prems
    have "list_all (\<lambda>w. py_lower w \<in> U) (cur @ [w])" "n + 1 = length (cur @ [w])"
      by simp_all
    from Cons.IH [OF this] True show ?thesis
      by simp
  next
    case False
    have ih: "group_loop U ws b [] 0
              = b @ map (py_join '' '')
                  (filter (\<lambda>run. 3 \<le> length run) (maximal_runs (\<lambda>w. py_lower w \<in> U) ws))"
      for b
      using Cons.IH [of "[]" 0 b] by simp
    show ?thesis
    proof (cases "cur = []")
      case True
      with False Cons.prems show ?thesis
        by (simp add: ih runs_skip)
    next
      case ne: False
      from runs_break [of "\<lambda>w. py_lower w \<in> U" cur w ws] Cons.prems ne False
      have "maximal_runs (\<lambda>w. py_lower w \<in> U) (cur @ w # ws)
            = cur # maximal_runs (\<lambda>w. py_lower w \<in> U) ws"
        by simp
      with False Cons.prems show ?thesis
        by (simp add: ih)
    qed
  qed
qed

lemma group_words_spec: "group_words_into_blocks t U = spec_text_blocks t U"
proof (cases "U = {}")
  case True
  then show ?thesis
    by (simp add: group_words_into_blocks_def spec_text_blocks_def runs_none)
next
  case False
  then show ?thesis
    using group_loop_runs [of U "[]" 0 "py_split t" "[]"]
    by (simp add: group_words_into_blocks_def spec_text_blocks_def)
qed

text \<open>
  Claim C7: on either side of the text comparison the emitted blocks are exactly the
  maximal runs of unique words that are at least three words long, in order, each
  the words of the run as they stand in the text, joined by single spaces.
\<close>

theorem C7_blocks_are_long_unique_runs:
  "group_words_into_blocks t U = spec_text_blocks t U \<and>
   compare_text raw_text rendered_text
     = (spec_text_blocks rendered_text
          (set (py_split (py_lower rendered_text)) - set (py_split (py_lower raw_text))),
        spec_text_blocks raw_text
          (set (py_split (py_lower raw_text)) - set (py_split (py_lower rendered_text))))"
  by (simp add: compare_text_def Let_def group_words_spec)

text \<open>
  Two comparisons: the scenario of the specification, and a text with a run of two
  unique words, which is dropped, and a run of three, which keeps its casing.
\<close>

lemma compare_text_scenario: "compare_text ''a b c'' ''a b c d e f'' = ([''d e f''], [])"
  by code_simp

lemma compare_text_short_run:
  "compare_text ''x y'' ''Hello World x New  Block Here y'' = ([''New Block Here''], [])"
  by code_simp

section \<open>Visibility\<close>









text \<open>
  The style test is a substring test on the lower-cased attribute: letter case does
  not matter, a space after the colon does.
\<close>

lemma style_with_space_not_marked:
  "\<not> marked_hidden (''p'', [(''style'', ''display: none;'')]) \<and>
   marked_hidden (''p'', [(''style'', ''Display:None'')])"
  by code_simp

section \<open>Derived metrics\<close>







section \<open>The wait step\<close>

text \<open>
  Claim C10: for an unrecognized strategy the wait step falls back to the network-idle
  behaviour and returns. The fallback branch calls the method again with the same,
  unchanged strategy, so whatever the recursion limit the call ends in
  \<open>RecursionError\<close> and never returns normally.
\<close>

theorem C10_unknown_strategy_recurses:
  "wait_strategy \<notin> {''network_idle'', ''load'', ''timeout''} \<Longrightarrow>
   wait_for_content depth wait_strategy pg timeout = Inl RecursionError"
  by (induction depth) auto

theorem C10_unknown_strategy_recurses_witness:
  "''networkidle'' \<notin> {''network_idle'', ''load'', ''timeout''} \<and>
   wait_for_content 1000 ''networkidle'' (\<lambda>state t. Inr ()) 30000 = Inl RecursionError"
  using C10_unknown_strategy_recurses [of "''networkidle''" 1000 "\<lambda>state t. Inr ()" 30000]
  by simp

text \<open>The three known strategies make no further call.\<close>

lemma known_strategies_return:
  "wait_for_content (Suc d) ''timeout'' pg t = Inr () \<and>
   wait_for_content (Suc d) ''load'' pg t = pg ''load'' t \<and>
   (pg ''networkidle'' t = Inl PlaywrightTimeoutError \<longrightarrow>
      wait_for_content (Suc d) ''network_idle'' pg t = Inr ())"
  by simp

end
